theory Spec2Isabelle
  imports Main
begin

section \<open>Shared data\<close>

text \<open>
  An access record of the trace (\<^verbatim>\<open>simulator.Trace\<close>): the engines read only the
  address and the operation token.
\<close>

record Trace =
  Addr :: int
  Op :: string

text \<open>
  The two failures of the engines: \<^verbatim>\<open>log.Fatal\<close> at construction, and the
  \<^verbatim>\<open>errors.New("orderedStack is empty")\<close> value of the demotion steps.
\<close>

datatype error = FatalHIRSize | StackEmpty

text \<open>
  Go's \<^verbatim>\<open>int\<close> is taken as 64 bits wide: a product wraps around, and \<^verbatim>\<open>/\<close>
  truncates toward zero.
\<close>

definition wrap64 :: "int \<Rightarrow> int" where
  "wrap64 x = (x + 9223372036854775808) mod 18446744073709551616 - 9223372036854775808"

definition go_div :: "int \<Rightarrow> int \<Rightarrow> int" where
  "go_div a b = sgn a * sgn b * (\<bar>a\<bar> div \<bar>b\<bar>)"

section \<open>The recency ordered container\<close>

text \<open>
  Modelled from the spec: the ordered map of \<^verbatim>\<open>github.com/secnot/orderedmap\<close> is
  an external package whose source is not part of the repository. The model follows
  the container contract of the specification: an association list with the oldest
  entry first; \<open>Set\<close> inserts an absent key at the newest position and overwrites the
  value of a present key where it stands; \<open>MoveLast\<close> relocates a present key to the
  newest position and does nothing for an absent key (the error it reports is dropped
  by every caller); \<open>PopFirst\<close> and \<open>GetFirst\<close> signal an empty container.
\<close>

type_synonym ('k, 'v) omap = "('k \<times> 'v) list"

definition om_Get :: "('k, 'v) omap \<Rightarrow> 'k \<Rightarrow> 'v option" where
  "om_Get m k = map_of m k"

fun om_Set :: "('k, 'v) omap \<Rightarrow> 'k \<Rightarrow> 'v \<Rightarrow> ('k, 'v) omap" where
  "om_Set [] k v = [(k, v)]"
| "om_Set (e # m) k v = (if fst e = k then (k, v) # m else e # om_Set m k v)"

fun om_Delete :: "('k, 'v) omap \<Rightarrow> 'k \<Rightarrow> ('k, 'v) omap" where
  "om_Delete [] k = []"
| "om_Delete (e # m) k = (if fst e = k then om_Delete m k else e # om_Delete m k)"

definition om_MoveLast :: "('k, 'v) omap \<Rightarrow> 'k \<Rightarrow> ('k, 'v) omap" where
  "om_MoveLast m k = (case om_Get m k of None \<Rightarrow> m | Some v \<Rightarrow> om_Delete m k @ [(k, v)])"

fun om_GetFirst :: "('k, 'v) omap \<Rightarrow> ('k \<times> 'v) option" where
  "om_GetFirst [] = None"
| "om_GetFirst (e # m) = Some e"

fun om_PopFirst :: "('k, 'v) omap \<Rightarrow> ('k \<times> 'v) option \<times> ('k, 'v) omap" where
  "om_PopFirst [] = (None, [])"
| "om_PopFirst (e # m) = (Some e, m)"

definition om_Len :: "('k, 'v) omap \<Rightarrow> int" where
  "om_Len m = int (length m)"

text \<open>
  The loop of \<^verbatim>\<open>stackPruning\<close>, shared by the three LIRS engines: the iterator walks
  the stack from the oldest entry; an entry whose key is in the LIR set ends the loop,
  any other entry is followed by one \<^verbatim>\<open>PopFirst\<close>, which removes exactly that entry.
\<close>

fun prune :: "int set \<Rightarrow> (int, 'v) omap \<Rightarrow> (int, 'v) omap" where
  "prune L [] = []"
| "prune L (e # m) = (if fst e \<in> L then e # m else prune L m)"

section \<open>The LIRS engine\<close>

text \<open>
  The struct \<^verbatim>\<open>LIRS\<close>. The maps \<^verbatim>\<open>LIR\<close> and \<^verbatim>\<open>HIR\<close> only ever store the value
  1, so they are the sets of their keys; the field \<^verbatim>\<open>cache\<close> is allocated and never
  used, and is left out. Stack and list store the value 1 under every key.
\<close>

record LIRS =
  cacheSize :: int
  LIRSize :: int
  HIRSize :: int
  hit :: int
  miss :: int
  writeCount :: int
  orderedStack :: "(int, int) omap"
  orderedList :: "(int, int) omap"
  LIR :: "int set"
  HIR :: "int set"

definition NewLIRS :: "int \<Rightarrow> int \<Rightarrow> error + LIRS" where
  "NewLIRS cacheSize' HIRSize' =
     (if HIRSize' > 100 \<or> HIRSize' < 0 then Inl FatalHIRSize
      else Inr \<lparr> LIRS.cacheSize = cacheSize',
                 LIRSize = go_div (wrap64 ((100 - HIRSize') * cacheSize')) 100,
                 HIRSize = go_div (wrap64 (HIRSize' * cacheSize')) 100,
                 hit = 0, miss = 0, writeCount = 0,
                 orderedStack = [], orderedList = [], LIR = {}, HIR = {} \<rparr>)"

definition lirs_addToStack :: "LIRS \<Rightarrow> int \<Rightarrow> LIRS" where
  "lirs_addToStack s block =
     (case om_Get (LIRS.orderedStack s) block of
        Some v \<Rightarrow> s\<lparr>LIRS.orderedStack := om_MoveLast (LIRS.orderedStack s) block\<rparr>
      | None \<Rightarrow> s\<lparr>LIRS.orderedStack := om_Set (LIRS.orderedStack s) block 1\<rparr>)"

definition lirs_addToList :: "LIRS \<Rightarrow> int \<Rightarrow> LIRS" where
  "lirs_addToList s block =
     (let q = (if om_Len (LIRS.orderedList s) = LIRS.HIRSize s
               then snd (om_PopFirst (LIRS.orderedList s)) else LIRS.orderedList s)
      in s\<lparr>LIRS.orderedList := om_Set q block 1\<rparr>)"

definition lirs_removeFromList :: "LIRS \<Rightarrow> int \<Rightarrow> LIRS" where
  "lirs_removeFromList s block = s\<lparr>LIRS.orderedList := om_Delete (LIRS.orderedList s) block\<rparr>"

definition lirs_makeLIR :: "LIRS \<Rightarrow> int \<Rightarrow> LIRS" where
  "lirs_makeLIR s block =
     (let s1 = s\<lparr>LIRS.LIR := insert block (LIRS.LIR s)\<rparr>;
          s2 = lirs_removeFromList s1 block
      in s2\<lparr>LIRS.HIR := LIRS.HIR s2 - {block}\<rparr>)"

definition lirs_makeHIR :: "LIRS \<Rightarrow> int \<Rightarrow> LIRS" where
  "lirs_makeHIR s block =
     (let s1 = s\<lparr>LIRS.HIR := insert block (LIRS.HIR s)\<rparr>
      in s1\<lparr>LIRS.LIR := LIRS.LIR s1 - {block}\<rparr>)"

definition lirs_stackPruning :: "LIRS \<Rightarrow> LIRS" where
  "lirs_stackPruning s = s\<lparr>LIRS.orderedStack := prune (LIRS.LIR s) (LIRS.orderedStack s)\<rparr>"

definition lirs_condition1 :: "LIRS \<Rightarrow> bool \<Rightarrow> error option \<times> LIRS" where
  "lirs_condition1 s removeLIR =
     (case om_PopFirst (LIRS.orderedStack s) of
        (None, st) \<Rightarrow> (Some StackEmpty, s)
      | (Some (key, v), st) \<Rightarrow>
          (let s1 = s\<lparr>LIRS.orderedStack := st\<rparr>;
               s2 = (if removeLIR
                     then (let s3 = lirs_makeHIR s1 key;
                               s4 = s3\<lparr>LIRS.orderedList := om_Set (LIRS.orderedList s3) key 1\<rparr>
                           in s4\<lparr>LIRS.orderedList := om_MoveLast (LIRS.orderedList s4) key\<rparr>)
                     else s1)
           in (None, lirs_stackPruning s2)))"

definition lirs_handleLIRBlock :: "LIRS \<Rightarrow> int \<Rightarrow> error option \<times> LIRS" where
  "lirs_handleLIRBlock s block =
     (let s1 = s\<lparr>LIRS.hit := LIRS.hit s + 1\<rparr>
      in case om_GetFirst (LIRS.orderedStack s1) of
           None \<Rightarrow> (Some StackEmpty, s1)
         | Some (key, v) \<Rightarrow>
             (let s2 = (if key = block then snd (lirs_condition1 s1 False) else s1)
              in (None, lirs_addToStack s2 block)))"

definition lirs_handleHIRResidentBlock :: "LIRS \<Rightarrow> int \<Rightarrow> LIRS" where
  "lirs_handleHIRResidentBlock s block =
     (let s1 = s\<lparr>LIRS.hit := LIRS.hit s + 1\<rparr>;
          s2 = (case om_Get (LIRS.orderedStack s1) block of
                  Some v \<Rightarrow> snd (lirs_condition1
                                   (lirs_removeFromList (lirs_makeLIR s1 block) block) True)
                | None \<Rightarrow> s1\<lparr>LIRS.orderedList := om_MoveLast (LIRS.orderedList s1) block\<rparr>)
      in lirs_addToStack s2 block)"

definition lirs_handleHIRNonResidentBlock :: "LIRS \<Rightarrow> int \<Rightarrow> LIRS" where
  "lirs_handleHIRNonResidentBlock s block =
     (let s1 = s\<lparr>LIRS.miss := LIRS.miss s + 1\<rparr>;
          s2 = lirs_addToList s1 block;
          s3 = (case om_Get (LIRS.orderedStack s2) block of
                  Some v \<Rightarrow> snd (lirs_condition1
                                   (lirs_removeFromList (lirs_makeLIR s2 block) block) True)
                | None \<Rightarrow> lirs_makeHIR s2 block)
      in lirs_addToStack s3 block)"

text \<open>
  \<^verbatim>\<open>Get\<close> returns \<^verbatim>\<open>nil\<close> at both of its exits; the error values of the handlers
  it calls are dropped, as in the source.
\<close>

definition lirs_Get :: "LIRS \<Rightarrow> Trace \<Rightarrow> error option \<times> LIRS" where
  "lirs_Get s trace =
     (let block = Addr trace;
          op = Op trace;
          s0 = (if op = ''W'' then s\<lparr>LIRS.writeCount := LIRS.writeCount s + 1\<rparr> else s)
      in if int (card (LIRS.LIR s0)) < LIRS.LIRSize s0
         then (let s1 = s0\<lparr>LIRS.miss := LIRS.miss s0 + 1\<rparr>;
                   s2 = (if block \<in> LIRS.LIR s1
                         then s1\<lparr>LIRS.miss := LIRS.miss s1 - 1, LIRS.hit := LIRS.hit s1 + 1\<rparr>
                         else s1)
               in (None, lirs_makeLIR (lirs_addToStack s2 block) block))
         else if block \<in> LIRS.LIR s0 then (None, snd (lirs_handleLIRBlock s0 block))
         else if om_Get (LIRS.orderedList s0) block \<noteq> None
              then (None, lirs_handleHIRResidentBlock s0 block)
         else (None, lirs_handleHIRNonResidentBlock s0 block))"

text \<open>The driver feeds the records of a trace to one engine, one at a time.\<close>

fun lirs_run :: "LIRS \<Rightarrow> Trace list \<Rightarrow> LIRS" where
  "lirs_run s [] = s"
| "lirs_run s (t # ts) = lirs_run (snd (lirs_Get s t)) ts"

section \<open>The LIRS-WSR engine, first variant\<close>

text \<open>
  The per-block metadata \<^verbatim>\<open>BlockInfo\<close>. A struct literal that names only some
  fields leaves the others at their zero values (0, the empty string, false).
\<close>

record BlockInfo =
  Address :: int
  Operation :: string
  DirtyPage :: bool
  ColdFlag :: bool
  Access :: int

text \<open>
  List Q stores a \<^verbatim>\<open>*BlockInfo\<close> when \<^verbatim>\<open>addToList\<close> fills it and the integer 1
  when a demotion fills it; its values are never read.
\<close>

datatype listValue = Info BlockInfo | One

text \<open>
  The struct \<^verbatim>\<open>LIRSWSR\<close>, for both variants of the engine (the second variant spells
  the field \<^verbatim>\<open>Access\<close> of \<^verbatim>\<open>BlockInfo\<close> in lower case). Stack S owns one
  \<^verbatim>\<open>BlockInfo\<close> per key; no pointer is shared between S and Q, so updating the
  metadata in place is updating the value stored under the key.
\<close>

record LIRSWSR =
  cacheSize :: int
  LIRSize :: int
  HIRSize :: int
  hit :: int
  miss :: int
  writeCount :: int
  orderedStack :: "(int, BlockInfo) omap"
  orderedList :: "(int, listValue) omap"
  LIR :: "int set"
  HIR :: "int set"

definition NewLIRSWSR :: "int \<Rightarrow> int \<Rightarrow> error + LIRSWSR" where
  "NewLIRSWSR cacheSize' HIRSize' =
     (if HIRSize' > 100 \<or> HIRSize' < 0 then Inl FatalHIRSize
      else Inr \<lparr> LIRSWSR.cacheSize = cacheSize',
                 LIRSize = go_div (wrap64 ((100 - HIRSize') * cacheSize')) 100,
                 HIRSize = go_div (wrap64 (HIRSize' * cacheSize')) 100,
                 hit = 0, miss = 0, writeCount = 0,
                 orderedStack = [], orderedList = [], LIR = {}, HIR = {} \<rparr>)"

definition resetInfo :: BlockInfo where
  "resetInfo = \<lparr> Address = 0, Operation = [], DirtyPage = False, ColdFlag = True, Access = 0 \<rparr>"

definition freshInfo :: "int \<Rightarrow> string \<Rightarrow> bool \<Rightarrow> BlockInfo" where
  "freshInfo block op dirty =
     \<lparr> Address = block, Operation = op, DirtyPage = dirty, ColdFlag = True, Access = 0 \<rparr>"

definition wsr_addToList :: "LIRSWSR \<Rightarrow> int \<Rightarrow> string \<Rightarrow> LIRSWSR" where
  "wsr_addToList s block op =
     (let q = (if om_Len (LIRSWSR.orderedList s) = LIRSWSR.HIRSize s
               then snd (om_PopFirst (LIRSWSR.orderedList s)) else LIRSWSR.orderedList s)
      in if op = ''W''
         then s\<lparr>LIRSWSR.writeCount := LIRSWSR.writeCount s + 1,
                LIRSWSR.orderedList := om_Set q block (Info (freshInfo block op True))\<rparr>
         else s\<lparr>LIRSWSR.orderedList := om_Set q block (Info (freshInfo block op False))\<rparr>)"

definition wsr_addToStack :: "LIRSWSR \<Rightarrow> int \<Rightarrow> string \<Rightarrow> LIRSWSR" where
  "wsr_addToStack s block op =
     (case om_Get (LIRSWSR.orderedStack s) block of
        Some blockInfo \<Rightarrow>
          (let st = om_Set (LIRSWSR.orderedStack s) block
                      (blockInfo\<lparr>Access := Access blockInfo + 1\<rparr>)
           in s\<lparr>LIRSWSR.orderedStack := om_MoveLast st block\<rparr>)
      | None \<Rightarrow>
          (if op = ''W''
           then s\<lparr>LIRSWSR.writeCount := LIRSWSR.writeCount s + 1,
                  LIRSWSR.orderedStack :=
                    om_Set (LIRSWSR.orderedStack s) block (freshInfo block op True)\<rparr>
           else s\<lparr>LIRSWSR.orderedStack :=
                    om_Set (LIRSWSR.orderedStack s) block (freshInfo block op False)\<rparr>))"

definition wsr_removeFromList :: "LIRSWSR \<Rightarrow> int \<Rightarrow> LIRSWSR" where
  "wsr_removeFromList s block =
     s\<lparr>LIRSWSR.orderedList := om_Delete (LIRSWSR.orderedList s) block\<rparr>"

definition wsr_makeLIR :: "LIRSWSR \<Rightarrow> int \<Rightarrow> LIRSWSR" where
  "wsr_makeLIR s block =
     (let s1 = s\<lparr>LIRSWSR.HIR := LIRSWSR.HIR s - {block}\<rparr>
      in s1\<lparr>LIRSWSR.LIR := insert block (LIRSWSR.LIR s1)\<rparr>)"

definition wsr_makeHIR :: "LIRSWSR \<Rightarrow> int \<Rightarrow> LIRSWSR" where
  "wsr_makeHIR s block =
     (let s1 = s\<lparr>LIRSWSR.LIR := LIRSWSR.LIR s - {block}\<rparr>
      in s1\<lparr>LIRSWSR.HIR := insert block (LIRSWSR.HIR s1)\<rparr>)"

definition wsr_stackPruning :: "LIRSWSR \<Rightarrow> LIRSWSR" where
  "wsr_stackPruning s =
     s\<lparr>LIRSWSR.orderedStack := prune (LIRSWSR.LIR s) (LIRSWSR.orderedStack s)\<rparr>"

definition wsr_isBlockCold :: "LIRSWSR \<Rightarrow> int \<Rightarrow> bool" where
  "wsr_isBlockCold s block =
     (case om_Get (LIRSWSR.orderedStack s) block of
        Some blockInfo \<Rightarrow> Access blockInfo < 2
      | None \<Rightarrow> False)"

definition wsr_isBlockDirty :: "LIRSWSR \<Rightarrow> int \<Rightarrow> bool" where
  "wsr_isBlockDirty s block =
     (case om_Get (LIRSWSR.orderedStack s) block of
        Some blockInfo \<Rightarrow> DirtyPage blockInfo
      | None \<Rightarrow> False)"

text \<open>
  The retry branch of the two demotion steps, the same in both variants:
  \<^verbatim>\<open>orderedStack.Set(block, &BlockInfo{ColdFlag: true, Access: 0})\<close> followed by
  \<^verbatim>\<open>orderedStack.MoveLast(block)\<close>.
\<close>

definition wsr_retry :: "LIRSWSR \<Rightarrow> int \<Rightarrow> LIRSWSR" where
  "wsr_retry s block =
     (let s1 = s\<lparr>LIRSWSR.orderedStack := om_Set (LIRSWSR.orderedStack s) block resetInfo\<rparr>
      in s1\<lparr>LIRSWSR.orderedStack := om_MoveLast (LIRSWSR.orderedStack s1) block\<rparr>)"

text \<open>
  The demotion branch of the two demotion steps, without its counter update:
  \<^verbatim>\<open>makeHIR(block)\<close>, \<^verbatim>\<open>orderedList.Set(block, 1)\<close>, \<^verbatim>\<open>orderedList.MoveLast(block)\<close>.
\<close>

definition wsr_demote :: "LIRSWSR \<Rightarrow> int \<Rightarrow> LIRSWSR" where
  "wsr_demote s block =
     (let s1 = wsr_makeHIR s block;
          s2 = s1\<lparr>LIRSWSR.orderedList := om_Set (LIRSWSR.orderedList s1) block One\<rparr>
      in s2\<lparr>LIRSWSR.orderedList := om_MoveLast (LIRSWSR.orderedList s2) block\<rparr>)"

definition wsr_condition1 :: "LIRSWSR \<Rightarrow> bool \<Rightarrow> error option \<times> LIRSWSR" where
  "wsr_condition1 s removeLIR =
     (case om_PopFirst (LIRSWSR.orderedStack s) of
        (None, st) \<Rightarrow> (Some StackEmpty, s)
      | (Some (key, v), st) \<Rightarrow>
          (let s1 = s\<lparr>LIRSWSR.orderedStack := st\<rparr>;
               s2 = (if removeLIR
                     then (if wsr_isBlockDirty s1 key \<or> wsr_isBlockCold s1 key
                           then wsr_demote (s1\<lparr>LIRSWSR.hit := LIRSWSR.hit s1 + 1\<rparr>) key
                           else wsr_retry s1 key)
                     else s1)
           in (None, wsr_stackPruning s2)))"

definition wsr_condition3 :: "LIRSWSR \<Rightarrow> bool \<Rightarrow> error option \<times> LIRSWSR" where
  "wsr_condition3 s removeLIR =
     (case om_PopFirst (LIRSWSR.orderedStack s) of
        (None, st) \<Rightarrow> (Some StackEmpty, s)
      | (Some (key, v), st) \<Rightarrow>
          (let s1 = s\<lparr>LIRSWSR.orderedStack := st\<rparr>;
               s2 = (if removeLIR
                     then (if wsr_isBlockDirty s1 key \<or> wsr_isBlockCold s1 key
                           then wsr_demote s1 key
                           else wsr_retry s1 key)
                     else s1)
           in (None, wsr_stackPruning s2)))"

definition wsr_handleLIRBlock :: "LIRSWSR \<Rightarrow> int \<Rightarrow> string \<Rightarrow> error option \<times> LIRSWSR" where
  "wsr_handleLIRBlock s block op =
     (let s1 = s\<lparr>LIRSWSR.hit := LIRSWSR.hit s + 1\<rparr>
      in case om_GetFirst (LIRSWSR.orderedStack s1) of
           None \<Rightarrow> (Some StackEmpty, s1)
         | Some (key, v) \<Rightarrow>
             (let s2 = (if key = block then snd (wsr_condition1 s1 False) else s1);
                  s3 = wsr_addToStack s2 block op
              in (None, s3\<lparr>LIRSWSR.orderedStack :=
                             om_Set (LIRSWSR.orderedStack s3) block resetInfo\<rparr>)))"

definition wsr_handleHIRResidentBlock :: "LIRSWSR \<Rightarrow> int \<Rightarrow> string \<Rightarrow> LIRSWSR" where
  "wsr_handleHIRResidentBlock s block op =
     (let s1 = (case om_Get (LIRSWSR.orderedStack s) block of
                  Some v \<Rightarrow> snd (wsr_condition1
                                   (wsr_removeFromList (wsr_makeLIR s block) block) True)
                | None \<Rightarrow> s\<lparr>LIRSWSR.orderedList :=
                               om_MoveLast (LIRSWSR.orderedList s) block\<rparr>)
      in wsr_addToStack s1 block op)"

definition wsr_handleHIRNonResidentBlock :: "LIRSWSR \<Rightarrow> int \<Rightarrow> string \<Rightarrow> LIRSWSR" where
  "wsr_handleHIRNonResidentBlock s block op =
     (let s1 = s\<lparr>LIRSWSR.miss := LIRSWSR.miss s + 1\<rparr>;
          s2 = wsr_addToList s1 block op;
          s3 = (case om_Get (LIRSWSR.orderedStack s2) block of
                  Some v \<Rightarrow> snd (wsr_condition3
                                   (wsr_removeFromList (wsr_makeLIR s2 block) block) True)
                | None \<Rightarrow> wsr_makeHIR s2 block)
      in wsr_addToStack s3 block op)"

definition wsr_Get :: "LIRSWSR \<Rightarrow> Trace \<Rightarrow> error option \<times> LIRSWSR" where
  "wsr_Get s trace =
     (let block = Addr trace;
          op = Op trace
      in if int (card (LIRSWSR.LIR s)) < LIRSWSR.LIRSize s
         then (let s1 = s\<lparr>LIRSWSR.miss := LIRSWSR.miss s + 1\<rparr>;
                   s2 = (if block \<in> LIRSWSR.LIR s1
                         then s1\<lparr>LIRSWSR.miss := LIRSWSR.miss s1 - 1,
                                 LIRSWSR.hit := LIRSWSR.hit s1 + 1\<rparr>
                         else s1)
               in (None, wsr_makeLIR (wsr_addToStack s2 block op) block))
         else if block \<in> LIRSWSR.LIR s then (None, snd (wsr_handleLIRBlock s block op))
         else if om_Get (LIRSWSR.orderedList s) block \<noteq> None
              then (None, wsr_handleHIRResidentBlock s block op)
         else (None, wsr_handleHIRNonResidentBlock s block op))"

fun wsr_run :: "LIRSWSR \<Rightarrow> Trace list \<Rightarrow> LIRSWSR" where
  "wsr_run s [] = s"
| "wsr_run s (t # ts) = wsr_run (snd (wsr_Get s t)) ts"

section \<open>The LIRS-WSR engine, second variant\<close>

text \<open>
  The second copy of the engine in the same source file. It shares the construction,
  \<^verbatim>\<open>addToList\<close>, \<^verbatim>\<open>removeFromList\<close>, \<^verbatim>\<open>makeLIR\<close>, \<^verbatim>\<open>makeHIR\<close> and
  \<^verbatim>\<open>stackPruning\<close> with the first, text for text; the functions below differ.
\<close>

definition wsr2_incrementAccess :: "LIRSWSR \<Rightarrow> int \<Rightarrow> LIRSWSR" where
  "wsr2_incrementAccess s block =
     (case om_Get (LIRSWSR.orderedStack s) block of
        Some blockInfo \<Rightarrow>
          s\<lparr>LIRSWSR.orderedStack :=
               om_Set (LIRSWSR.orderedStack s) block (blockInfo\<lparr>Access := Access blockInfo + 1\<rparr>)\<rparr>
      | None \<Rightarrow> s)"

definition wsr2_addToStack :: "LIRSWSR \<Rightarrow> int \<Rightarrow> string \<Rightarrow> LIRSWSR" where
  "wsr2_addToStack s block op =
     (case om_Get (LIRSWSR.orderedStack s) block of
        Some v \<Rightarrow> s\<lparr>LIRSWSR.orderedStack := om_MoveLast (LIRSWSR.orderedStack s) block\<rparr>
      | None \<Rightarrow>
          (if op = ''W''
           then s\<lparr>LIRSWSR.writeCount := LIRSWSR.writeCount s + 1,
                  LIRSWSR.orderedStack :=
                    om_Set (LIRSWSR.orderedStack s) block (freshInfo block op True)\<rparr>
           else s\<lparr>LIRSWSR.orderedStack :=
                    om_Set (LIRSWSR.orderedStack s) block (freshInfo block op False)\<rparr>))"

definition wsr2_isColdFlag :: "LIRSWSR \<Rightarrow> int \<Rightarrow> bool" where
  "wsr2_isColdFlag s block =
     (case om_Get (LIRSWSR.orderedStack s) block of
        Some blockInfo \<Rightarrow> Access blockInfo < 2
      | None \<Rightarrow> False)"

definition wsr2_isBlockColdDirty :: "LIRSWSR \<Rightarrow> int \<Rightarrow> bool" where
  "wsr2_isBlockColdDirty s block =
     (case om_Get (LIRSWSR.orderedStack s) block of
        Some blockInfo \<Rightarrow> ColdFlag blockInfo \<and> DirtyPage blockInfo
      | None \<Rightarrow> False)"

definition wsr2_condition1 :: "LIRSWSR \<Rightarrow> bool \<Rightarrow> error option \<times> LIRSWSR" where
  "wsr2_condition1 s removeLIR =
     (case om_PopFirst (LIRSWSR.orderedStack s) of
        (None, st) \<Rightarrow> (Some StackEmpty, s)
      | (Some (key, v), st) \<Rightarrow>
          (let s1 = s\<lparr>LIRSWSR.orderedStack := st\<rparr>;
               s2 = (if removeLIR
                     then (if wsr2_isBlockColdDirty s1 key \<or> wsr2_isColdFlag s1 key
                           then wsr_demote s1 key
                           else wsr_retry (s1\<lparr>LIRSWSR.miss := LIRSWSR.miss s1 + 1\<rparr>) key)
                     else s1)
           in (None, wsr_stackPruning s2)))"

definition wsr2_condition3 :: "LIRSWSR \<Rightarrow> bool \<Rightarrow> error option \<times> LIRSWSR" where
  "wsr2_condition3 s removeLIR =
     (case om_PopFirst (LIRSWSR.orderedStack s) of
        (None, st) \<Rightarrow> (Some StackEmpty, s)
      | (Some (key, v), st) \<Rightarrow>
          (let s1 = s\<lparr>LIRSWSR.orderedStack := st\<rparr>;
               s2 = (if removeLIR
                     then (if wsr2_isBlockColdDirty s1 key \<or> wsr2_isColdFlag s1 key
                           then wsr_demote s1 key
                           else wsr_retry (s1\<lparr>LIRSWSR.miss := LIRSWSR.miss s1 + 1\<rparr>) key)
                     else s1)
           in (None, wsr_stackPruning s2)))"

definition wsr2_handleLIRBlock :: "LIRSWSR \<Rightarrow> int \<Rightarrow> string \<Rightarrow> error option \<times> LIRSWSR" where
  "wsr2_handleLIRBlock s block op =
     (let s1 = s\<lparr>LIRSWSR.hit := LIRSWSR.hit s + 1\<rparr>
      in case om_GetFirst (LIRSWSR.orderedStack s1) of
           None \<Rightarrow> (Some StackEmpty, s1)
         | Some (key, v) \<Rightarrow>
             (let s2 = (if key = block then snd (wsr2_condition1 s1 False) else s1);
                  s3 = wsr2_addToStack s2 block op;
                  s4 = s3\<lparr>LIRSWSR.orderedStack :=
                            om_Set (LIRSWSR.orderedStack s3) block resetInfo\<rparr>
              in (None, wsr2_incrementAccess s4 block)))"

definition wsr2_handleHIRResidentBlock :: "LIRSWSR \<Rightarrow> int \<Rightarrow> string \<Rightarrow> LIRSWSR" where
  "wsr2_handleHIRResidentBlock s block op =
     (let s1 = s\<lparr>LIRSWSR.hit := LIRSWSR.hit s + 1\<rparr>;
          s2 = (case om_Get (LIRSWSR.orderedStack s1) block of
                  Some v \<Rightarrow> snd (wsr2_condition1
                                   (wsr_removeFromList (wsr_makeLIR s1 block) block) True)
                | None \<Rightarrow> snd (wsr2_condition1
                                  (s1\<lparr>LIRSWSR.orderedList :=
                                        om_MoveLast (LIRSWSR.orderedList s1) block\<rparr>) True))
      in wsr2_incrementAccess (wsr2_addToStack s2 block op) block)"

definition wsr2_handleHIRNonResidentBlock :: "LIRSWSR \<Rightarrow> int \<Rightarrow> string \<Rightarrow> LIRSWSR" where
  "wsr2_handleHIRNonResidentBlock s block op =
     (let s1 = s\<lparr>LIRSWSR.miss := LIRSWSR.miss s + 1\<rparr>;
          s2 = wsr_addToList s1 block op;
          s3 = (case om_Get (LIRSWSR.orderedStack s2) block of
                  Some v \<Rightarrow> snd (wsr2_condition3
                                   (wsr_removeFromList (wsr_makeLIR s2 block) block) True)
                | None \<Rightarrow> wsr_makeHIR s2 block);
          s4 = wsr2_addToStack s3 block op;
          s5 = s4\<lparr>LIRSWSR.orderedStack := om_Set (LIRSWSR.orderedStack s4) block resetInfo\<rparr>
      in wsr2_incrementAccess s5 block)"

definition wsr2_Get :: "LIRSWSR \<Rightarrow> Trace \<Rightarrow> error option \<times> LIRSWSR" where
  "wsr2_Get s trace =
     (let block = Addr trace;
          op = Op trace
      in if int (card (LIRSWSR.LIR s)) < LIRSWSR.LIRSize s
         then (let s1 = s\<lparr>LIRSWSR.miss := LIRSWSR.miss s + 1\<rparr>;
                   s2 = (if block \<in> LIRSWSR.LIR s1
                         then s1\<lparr>LIRSWSR.miss := LIRSWSR.miss s1 - 1,
                                 LIRSWSR.hit := LIRSWSR.hit s1 + 1\<rparr>
                         else s1)
               in (None, wsr_makeLIR (wsr2_addToStack s2 block op) block))
         else if block \<in> LIRSWSR.LIR s then (None, snd (wsr2_handleLIRBlock s block op))
         else if om_Get (LIRSWSR.orderedList s) block \<noteq> None
              then (None, wsr2_handleHIRResidentBlock s block op)
         else (None, wsr2_handleHIRNonResidentBlock s block op))"

fun wsr2_run :: "LIRSWSR \<Rightarrow> Trace list \<Rightarrow> LIRSWSR" where
  "wsr2_run s [] = s"
| "wsr2_run s (t # ts) = wsr2_run (snd (wsr2_Get s t)) ts"

section \<open>The LRU engine\<close>

text \<open>
  A node of the cache (\<^verbatim>\<open>Node\<close>, also named \<^verbatim>\<open>NodeLba\<close>). Its field \<^verbatim>\<open>elem\<close> is
  the handle of the node's own entry in the recency list; the list below holds the
  nodes themselves, and the entry of a node is the one carrying its address.
\<close>

record Node =
  lba :: int
  lastaccess :: int
  op :: string

text \<open>
  The struct \<^verbatim>\<open>LRU\<close>. The index \<^verbatim>\<open>tlba\<close> is a tree ordered by \<^verbatim>\<open>lba\<close> alone
  (\<^verbatim>\<open>Less\<close> compares nothing else), read and written by key: a partial map from
  addresses to nodes. The recency list has its front first.
\<close>

record LRU =
  maxlen :: int
  available :: int
  totalaccess :: int
  hit :: int
  miss :: int
  pagefault :: int
  "write" :: int
  tlba :: "int \<rightharpoonup> Node"
  lrulist :: "Node list"

definition NewLRU :: "int \<Rightarrow> LRU" where
  "NewLRU cacheSize' =
     \<lparr> maxlen = cacheSize', available = cacheSize', totalaccess = 0, LRU.hit = 0,
       LRU.miss = 0, pagefault = 0, write = 0, tlba = Map.empty, lrulist = [] \<rparr>"

text \<open>\<^verbatim>\<open>lrulist.Remove(e)\<close> for the entry \<open>e\<close> of the node with the given address.\<close>

fun list_Remove :: "Node list \<Rightarrow> int \<Rightarrow> Node list" where
  "list_Remove [] a = []"
| "list_Remove (n # ns) a = (if lba n = a then ns else n # list_Remove ns a)"

text \<open>
  \<^verbatim>\<open>put\<close> yields whether the address was present. With an empty list and no free
  capacity, \<^verbatim>\<open>lrulist.Back()\<close> is \<^verbatim>\<open>nil\<close> and reading its value panics: the result
  \<open>None\<close>.
\<close>

definition put :: "LRU \<Rightarrow> Node \<Rightarrow> (bool \<times> LRU) option" where
  "put lru data =
     (case tlba lru (lba data) of
        Some dd \<Rightarrow>
          (let l1 = lru\<lparr>LRU.hit := LRU.hit lru + 1\<rparr>;
               l2 = (if op data = ''W'' then l1\<lparr>write := write l1 + 1\<rparr> else l1)
           in Some (True, l2\<lparr>lrulist := dd # list_Remove (lrulist l2) (lba dd)\<rparr>))
      | None \<Rightarrow>
          (let l1 = lru\<lparr>LRU.miss := LRU.miss lru + 1, write := write lru + 1\<rparr>
           in if available l1 > 0
              then Some (False, l1\<lparr>available := available l1 - 1,
                                    lrulist := data # lrulist l1,
                                    tlba := (tlba l1)(lba data \<mapsto> data)\<rparr>)
              else (let l2 = l1\<lparr>pagefault := pagefault l1 + 1\<rparr>
                    in case lrulist l2 of
                         [] \<Rightarrow> None
                       | e # es \<Rightarrow>
                           (let el = last (lrulist l2);
                                l3 = l2\<lparr>tlba := (tlba l2)(lba el := None)\<rparr>;
                                l4 = l3\<lparr>lrulist := butlast (lrulist l3)\<rparr>
                            in Some (False, l4\<lparr>lrulist := data # lrulist l4,
                                                tlba := (tlba l4)(lba data \<mapsto> data)\<rparr>)))))"

definition lru_Get :: "LRU \<Rightarrow> Trace \<Rightarrow> LRU option" where
  "lru_Get lru trace =
     (let l1 = lru\<lparr>totalaccess := totalaccess lru + 1\<rparr>;
          obj = \<lparr> lba = Addr trace, lastaccess = totalaccess l1, op = Op trace \<rparr>
      in map_option snd (put l1 obj))"

fun lru_run :: "LRU \<Rightarrow> Trace list \<Rightarrow> LRU option" where
  "lru_run lru [] = Some lru"
| "lru_run lru (t # ts) = (case lru_Get lru t of None \<Rightarrow> None | Some l \<Rightarrow> lru_run l ts)"

section \<open>Unfolding the engines\<close>

text \<open>
  The defining equations of each engine, collected for running it on a concrete trace.
\<close>

lemmas om_defs = om_Get_def om_MoveLast_def om_Len_def
lemmas lirs_defs = lirs_Get_def lirs_handleLIRBlock_def lirs_handleHIRResidentBlock_def
  lirs_handleHIRNonResidentBlock_def lirs_condition1_def lirs_stackPruning_def lirs_makeHIR_def
  lirs_makeLIR_def lirs_removeFromList_def lirs_addToList_def lirs_addToStack_def
lemmas wsr_shared_defs = wsr_addToList_def wsr_removeFromList_def wsr_makeLIR_def wsr_makeHIR_def
  wsr_stackPruning_def wsr_retry_def wsr_demote_def resetInfo_def freshInfo_def
lemmas wsr_defs = wsr_Get_def wsr_handleLIRBlock_def wsr_handleHIRResidentBlock_def
  wsr_handleHIRNonResidentBlock_def wsr_condition1_def wsr_condition3_def wsr_isBlockCold_def
  wsr_isBlockDirty_def wsr_addToStack_def
lemmas wsr2_defs = wsr2_Get_def wsr2_handleLIRBlock_def wsr2_handleHIRResidentBlock_def
  wsr2_handleHIRNonResidentBlock_def wsr2_condition1_def wsr2_condition3_def wsr2_isColdFlag_def
  wsr2_isBlockColdDirty_def wsr2_addToStack_def wsr2_incrementAccess_def
lemmas new_defs = NewLIRS_def NewLIRSWSR_def wrap64_def go_div_def
lemmas lru_defs = NewLRU_def lru_Get_def put_def

section \<open>Facts about the container\<close>

lemma om_Get_om_Set_same: "om_Get (om_Set m k v) k = Some v"
  by (induction m) (simp_all add: om_Get_def)

lemma om_Set_absent: "om_Get m k = None \<Longrightarrow> om_Set m k v = m @ [(k, v)]"
  by (induction m) (auto simp add: om_Get_def split: if_splits)

lemma om_Delete_absent: "om_Get m k = None \<Longrightarrow> om_Delete m k = m"
  by (induction m) (auto simp add: om_Get_def split: if_splits)

lemma om_Delete_append: "om_Delete (m @ n) k = om_Delete m k @ om_Delete n k"
  by (induction m) simp_all

lemma om_MoveLast_newest:
  "om_Get m k = None \<Longrightarrow> om_MoveLast (m @ [(k, v)]) k = m @ [(k, v)]"
  using om_Delete_absent [of m k]
  by (simp add: om_MoveLast_def om_Get_def map_add_def om_Delete_append)

section \<open>Facts about the capacity arithmetic\<close>

lemma wrap64_id: "0 \<le> x \<Longrightarrow> x < 9223372036854775808 \<Longrightarrow> wrap64 x = x"
  by (simp add: wrap64_def)

lemma go_div_nonneg: "0 \<le> a \<Longrightarrow> go_div a 100 = a div 100"
  by (cases "a = 0") (simp_all add: go_div_def)

lemma div_mod_100:
  fixes x :: int
  shows "x = 100 * (x div 100) + x mod 100" and "0 \<le> x mod 100" and "x mod 100 < 100"
    and "(100 dvd x) = (x mod 100 = 0)"
  by (simp_all add: dvd_eq_mod_eq_0)

lemma split_aux:
  fixes a c d1 d2 m1 m2 :: int
  assumes "100 * c - a = 100 * d1 + m1" and "0 \<le> m1" and "m1 < 100"
    and "a = 100 * d2 + m2" and "0 \<le> m2" and "m2 < 100"
  shows "d1 + d2 \<le> c" and "c - 1 \<le> d1 + d2" and "(d1 + d2 = c) = (m2 = 0)"
proof -
  show "d1 + d2 \<le> c" using assms by linarith
  show "c - 1 \<le> d1 + d2" using assms by linarith
  have r1: "d1 + d2 = c \<Longrightarrow> m2 = 0" using assms by linarith
  have r2: "m2 = 0 \<Longrightarrow> d1 + d2 = c" using assms by linarith
  show "(d1 + d2 = c) = (m2 = 0)" using r1 r2 by blast
qed

lemma split_sum:
  fixes a c :: int
  shows "(100 * c - a) div 100 + a div 100 \<le> c"
    and "c - 1 \<le> (100 * c - a) div 100 + a div 100"
    and "((100 * c - a) div 100 + a div 100 = c) = (100 dvd a)"
proof -
  note f = div_mod_100 (1) div_mod_100 (2) div_mod_100 (3)
  show "(100 * c - a) div 100 + a div 100 \<le> c"
    by (rule split_aux (1) [OF f f])
  show "c - 1 \<le> (100 * c - a) div 100 + a div 100"
    by (rule split_aux (2) [OF f f])
  have "((100 * c - a) div 100 + a div 100 = c) = (a mod 100 = 0)"
    by (rule split_aux (3) [OF f f])
  thus "((100 * c - a) div 100 + a div 100 = c) = (100 dvd a)"
    by (simp only: div_mod_100 (4))
qed

lemma capacity_products:
  fixes c h :: int
  assumes "0 < c" "c \<le> 92233720368547758" "0 \<le> h" "h \<le> 100"
  shows "wrap64 ((100 - h) * c) = 100 * c - h * c" and "wrap64 (h * c) = h * c"
    and "0 \<le> h * c" and "0 \<le> 100 * c - h * c"
proof -
  have p0: "0 \<le> h * c" using assms by simp
  have p1: "h * c \<le> 100 * c" using assms by (simp add: mult_right_mono)
  have p2: "100 * c < 9223372036854775808" using assms by simp
  show "0 \<le> h * c" by (rule p0)
  show "0 \<le> 100 * c - h * c" using p1 by simp
  show "wrap64 (h * c) = h * c" using p0 p1 p2 by (intro wrap64_id) simp_all
  have "(100 - h) * c = 100 * c - h * c" by (simp add: algebra_simps)
  moreover have "wrap64 (100 * c - h * c) = 100 * c - h * c"
    using p0 p1 p2 by (intro wrap64_id) simp_all
  ultimately show "wrap64 ((100 - h) * c) = 100 * c - h * c" by simp
qed

section \<open>The counters of the LIRS engine\<close>

text \<open>
  What each function of the engine does to \<^verbatim>\<open>hit\<close>, \<^verbatim>\<open>miss\<close> and
  \<^verbatim>\<open>writeCount\<close>.
\<close>

lemma lirs_addToStack_counters [simp]:
  "LIRS.hit (lirs_addToStack s b) = LIRS.hit s"
  "LIRS.miss (lirs_addToStack s b) = LIRS.miss s"
  "LIRS.writeCount (lirs_addToStack s b) = LIRS.writeCount s"
  by (simp_all add: lirs_addToStack_def split: option.split)

lemma lirs_addToList_counters [simp]:
  "LIRS.hit (lirs_addToList s b) = LIRS.hit s"
  "LIRS.miss (lirs_addToList s b) = LIRS.miss s"
  "LIRS.writeCount (lirs_addToList s b) = LIRS.writeCount s"
  by (simp_all add: lirs_addToList_def Let_def)

lemma lirs_removeFromList_counters [simp]:
  "LIRS.hit (lirs_removeFromList s b) = LIRS.hit s"
  "LIRS.miss (lirs_removeFromList s b) = LIRS.miss s"
  "LIRS.writeCount (lirs_removeFromList s b) = LIRS.writeCount s"
  by (simp_all add: lirs_removeFromList_def)

lemma lirs_makeLIR_counters [simp]:
  "LIRS.hit (lirs_makeLIR s b) = LIRS.hit s"
  "LIRS.miss (lirs_makeLIR s b) = LIRS.miss s"
  "LIRS.writeCount (lirs_makeLIR s b) = LIRS.writeCount s"
  by (simp_all add: lirs_makeLIR_def Let_def)

lemma lirs_makeHIR_counters [simp]:
  "LIRS.hit (lirs_makeHIR s b) = LIRS.hit s"
  "LIRS.miss (lirs_makeHIR s b) = LIRS.miss s"
  "LIRS.writeCount (lirs_makeHIR s b) = LIRS.writeCount s"
  by (simp_all add: lirs_makeHIR_def Let_def)

lemma lirs_stackPruning_counters [simp]:
  "LIRS.hit (lirs_stackPruning s) = LIRS.hit s"
  "LIRS.miss (lirs_stackPruning s) = LIRS.miss s"
  "LIRS.writeCount (lirs_stackPruning s) = LIRS.writeCount s"
  by (simp_all add: lirs_stackPruning_def)

lemma lirs_condition1_counters [simp]:
  "LIRS.hit (snd (lirs_condition1 s r)) = LIRS.hit s"
  "LIRS.miss (snd (lirs_condition1 s r)) = LIRS.miss s"
  "LIRS.writeCount (snd (lirs_condition1 s r)) = LIRS.writeCount s"
  by (cases "LIRS.orderedStack s"; simp add: lirs_condition1_def Let_def split: prod.split)+

lemma lirs_handleLIRBlock_counters [simp]:
  "LIRS.hit (snd (lirs_handleLIRBlock s b)) = LIRS.hit s + 1"
  "LIRS.miss (snd (lirs_handleLIRBlock s b)) = LIRS.miss s"
  "LIRS.writeCount (snd (lirs_handleLIRBlock s b)) = LIRS.writeCount s"
  by (cases "LIRS.orderedStack s"; simp add: lirs_handleLIRBlock_def Let_def split: prod.split)+

lemma lirs_handleHIRResidentBlock_counters [simp]:
  "LIRS.hit (lirs_handleHIRResidentBlock s b) = LIRS.hit s + 1"
  "LIRS.miss (lirs_handleHIRResidentBlock s b) = LIRS.miss s"
  "LIRS.writeCount (lirs_handleHIRResidentBlock s b) = LIRS.writeCount s"
  by (simp_all add: lirs_handleHIRResidentBlock_def Let_def split: option.split)

lemma lirs_handleHIRNonResidentBlock_counters [simp]:
  "LIRS.hit (lirs_handleHIRNonResidentBlock s b) = LIRS.hit s"
  "LIRS.miss (lirs_handleHIRNonResidentBlock s b) = LIRS.miss s + 1"
  "LIRS.writeCount (lirs_handleHIRNonResidentBlock s b) = LIRS.writeCount s"
  by (simp_all add: lirs_handleHIRNonResidentBlock_def Let_def split: option.split)




lemma lirs_Get_nil: "fst (lirs_Get s t) = None"
  by (simp add: lirs_Get_def Let_def)



section \<open>The counters of the LIRS-WSR engine\<close>

text \<open>
  What each function of the two variants does to \<^verbatim>\<open>hit\<close> and \<^verbatim>\<open>miss\<close>. In the
  first variant only the demotion branch of \<^verbatim>\<open>condition1\<close> counts a hit on the path
  of a HIR resident block; in the second the retry branch of both demotion steps counts
  a miss of its own.
\<close>

lemma wsr_addToList_counters [simp]:
  "LIRSWSR.hit (wsr_addToList s b opr) = LIRSWSR.hit s"
  "LIRSWSR.miss (wsr_addToList s b opr) = LIRSWSR.miss s"
  by (simp_all add: wsr_addToList_def Let_def)

lemma wsr_addToStack_counters [simp]:
  "LIRSWSR.hit (wsr_addToStack s b opr) = LIRSWSR.hit s"
  "LIRSWSR.miss (wsr_addToStack s b opr) = LIRSWSR.miss s"
  by (simp_all add: wsr_addToStack_def Let_def split: option.split)

lemma wsr2_addToStack_counters [simp]:
  "LIRSWSR.hit (wsr2_addToStack s b opr) = LIRSWSR.hit s"
  "LIRSWSR.miss (wsr2_addToStack s b opr) = LIRSWSR.miss s"
  by (simp_all add: wsr2_addToStack_def Let_def split: option.split)

lemma wsr2_incrementAccess_counters [simp]:
  "LIRSWSR.hit (wsr2_incrementAccess s b) = LIRSWSR.hit s"
  "LIRSWSR.miss (wsr2_incrementAccess s b) = LIRSWSR.miss s"
  by (simp_all add: wsr2_incrementAccess_def split: option.split)

lemma wsr_removeFromList_counters [simp]:
  "LIRSWSR.hit (wsr_removeFromList s b) = LIRSWSR.hit s"
  "LIRSWSR.miss (wsr_removeFromList s b) = LIRSWSR.miss s"
  by (simp_all add: wsr_removeFromList_def)

lemma wsr_makeLIR_counters [simp]:
  "LIRSWSR.hit (wsr_makeLIR s b) = LIRSWSR.hit s"
  "LIRSWSR.miss (wsr_makeLIR s b) = LIRSWSR.miss s"
  by (simp_all add: wsr_makeLIR_def Let_def)

lemma wsr_makeHIR_counters [simp]:
  "LIRSWSR.hit (wsr_makeHIR s b) = LIRSWSR.hit s"
  "LIRSWSR.miss (wsr_makeHIR s b) = LIRSWSR.miss s"
  by (simp_all add: wsr_makeHIR_def Let_def)

lemma wsr_stackPruning_counters [simp]:
  "LIRSWSR.hit (wsr_stackPruning s) = LIRSWSR.hit s"
  "LIRSWSR.miss (wsr_stackPruning s) = LIRSWSR.miss s"
  by (simp_all add: wsr_stackPruning_def)

lemma wsr_retry_counters [simp]:
  "LIRSWSR.hit (wsr_retry s b) = LIRSWSR.hit s"
  "LIRSWSR.miss (wsr_retry s b) = LIRSWSR.miss s"
  by (simp_all add: wsr_retry_def Let_def)

lemma wsr_demote_counters [simp]:
  "LIRSWSR.hit (wsr_demote s b) = LIRSWSR.hit s"
  "LIRSWSR.miss (wsr_demote s b) = LIRSWSR.miss s"
  by (simp_all add: wsr_demote_def Let_def)


lemma wsr_condition3_counters [simp]:
  "LIRSWSR.hit (snd (wsr_condition3 s r)) = LIRSWSR.hit s"
  "LIRSWSR.miss (snd (wsr_condition3 s r)) = LIRSWSR.miss s"
  by (cases "LIRSWSR.orderedStack s"; simp add: wsr_condition3_def Let_def split: prod.split)+



lemma wsr_handleLIRBlock_counters [simp]:
  "LIRSWSR.hit (snd (wsr_handleLIRBlock s b opr)) = LIRSWSR.hit s + 1"
  "LIRSWSR.miss (snd (wsr_handleLIRBlock s b opr)) = LIRSWSR.miss s"
  by (cases "LIRSWSR.orderedStack s";
      simp add: wsr_handleLIRBlock_def wsr_condition1_def Let_def split: prod.split)+


lemma wsr_handleHIRNonResidentBlock_counters [simp]:
  "LIRSWSR.hit (wsr_handleHIRNonResidentBlock s b opr) = LIRSWSR.hit s"
  "LIRSWSR.miss (wsr_handleHIRNonResidentBlock s b opr) = LIRSWSR.miss s + 1"
  by (simp_all add: wsr_handleHIRNonResidentBlock_def Let_def split: option.split)


lemma wsr2_handleLIRBlock_counters [simp]:
  "LIRSWSR.hit (snd (wsr2_handleLIRBlock s b opr)) = LIRSWSR.hit s + 1"
  "LIRSWSR.miss (snd (wsr2_handleLIRBlock s b opr)) = LIRSWSR.miss s"
  by (cases "LIRSWSR.orderedStack s";
      simp add: wsr2_handleLIRBlock_def wsr2_condition1_def Let_def split: prod.split)+






section \<open>The resident blocks of the LRU engine\<close>

text \<open>
  \<^verbatim>\<open>put\<close> keeps the length of the recency list and the free capacity adding up to
  \<^verbatim>\<open>maxlen\<close>, the free capacity non-negative, and every node of the index in the
  list under its own address. So an engine built for a non-negative size never holds more
  blocks than that size.
\<close>

lemma list_Remove_length:
  "\<exists>m\<in>set ns. lba m = a \<Longrightarrow> Suc (length (list_Remove ns a)) = length ns"
  by (induction ns) auto

lemma list_Remove_keeps:
  "m \<in> set ns \<Longrightarrow> lba m \<noteq> a \<Longrightarrow> m \<in> set (list_Remove ns a)"
  by (induction ns) auto

lemma butlast_keeps:
  "m \<in> set ns \<Longrightarrow> m \<noteq> last ns \<Longrightarrow> m \<in> set (butlast ns)"
  by (induction ns) (auto split: if_splits)

lemma put_hit_resident:
  assumes len: "int (length (lrulist l)) + available l = maxlen l"
    and idx: "\<forall>k n. tlba l k = Some n \<longrightarrow> lba n = k \<and> (\<exists>m\<in>set (lrulist l). lba m = k)"
    and hit: "tlba l (lba d) = Some dd"
    and res: "put l d = Some (b, l')"
  shows "int (length (lrulist l')) + available l' = maxlen l' \<and>
         available l' = available l \<and> maxlen l' = maxlen l \<and>
         (\<forall>k n. tlba l' k = Some n \<longrightarrow> lba n = k \<and> (\<exists>m\<in>set (lrulist l'). lba m = k))"
proof -
  have dd: "lba dd = lba d" and ex: "\<exists>m\<in>set (lrulist l). lba m = lba dd"
    using idx hit by auto
  have l': "lrulist l' = dd # list_Remove (lrulist l) (lba dd)" "available l' = available l"
    "maxlen l' = maxlen l" "tlba l' = tlba l"
    using hit res by (auto simp add: put_def Let_def)
  have n: "Suc (length (list_Remove (lrulist l) (lba dd))) = length (lrulist l)"
    using ex by (rule list_Remove_length)
  have keep: "\<exists>m\<in>set (lrulist l'). lba m = k" if h: "tlba l k = Some n" for k n
  proof (cases "k = lba dd")
    case True
    then show ?thesis by (simp add: l')
  next
    case False
    obtain m where "m \<in> set (lrulist l)" "lba m = k" using idx h by blast
    then have "m \<in> set (list_Remove (lrulist l) (lba dd))"
      using False by (simp add: list_Remove_keeps)
    then show ?thesis using \<open>lba m = k\<close> by (auto simp add: l')
  qed
  show ?thesis
    using len n idx keep by (auto simp add: l')
qed

lemma put_miss_resident:
  assumes len: "int (length (lrulist l)) + available l = maxlen l"
    and av: "0 \<le> available l"
    and idx: "\<forall>k n. tlba l k = Some n \<longrightarrow> lba n = k \<and> (\<exists>m\<in>set (lrulist l). lba m = k)"
    and miss: "tlba l (lba d) = None"
    and res: "put l d = Some (b, l')"
  shows "int (length (lrulist l')) + available l' = maxlen l' \<and>
         0 \<le> available l' \<and> maxlen l' = maxlen l \<and>
         (\<forall>k n. tlba l' k = Some n \<longrightarrow> lba n = k \<and> (\<exists>m\<in>set (lrulist l'). lba m = k))"
proof (cases "0 < available l")
  case True
  then have l': "lrulist l' = d # lrulist l" "available l' = available l - 1"
    "maxlen l' = maxlen l" "tlba l' = (tlba l)(lba d \<mapsto> d)"
    using miss res by (auto simp add: put_def Let_def)
  show ?thesis
    using len True idx by (auto simp add: l')
next
  case False
  then obtain e es where es: "lrulist l = e # es"
    using miss res by (cases "lrulist l") (auto simp add: put_def Let_def)
  have l': "lrulist l' = d # butlast (lrulist l)" "available l' = available l"
    "maxlen l' = maxlen l"
    "tlba l' = ((tlba l)(lba (last (lrulist l)) := None))(lba d \<mapsto> d)"
    using miss res False es by (auto simp add: put_def Let_def)
  have keep: "\<exists>m\<in>set (lrulist l'). lba m = k"
    if h: "tlba l k = Some n" and h': "k \<noteq> lba (last (lrulist l))" for k n
  proof -
    obtain m where m: "m \<in> set (lrulist l)" "lba m = k" using idx h by blast
    then have "m \<noteq> last (lrulist l)" using h' by auto
    then have "m \<in> set (butlast (lrulist l))" using m(1) by (simp add: butlast_keeps)
    then show ?thesis using m(2) by (auto simp add: l')
  qed
  have n: "int (length (lrulist l')) = int (length (lrulist l))"
    by (simp add: l' es)
  have self: "\<exists>m\<in>set (lrulist l'). lba m = lba d"
    by (simp add: l')
  show ?thesis
    using len av n idx keep self by (auto simp add: l'(2,3,4) split: if_splits)
qed

lemma lru_Get_resident:
  assumes "int (length (lrulist l)) + available l = maxlen l"
    and "0 \<le> available l"
    and "\<forall>k n. tlba l k = Some n \<longrightarrow> lba n = k \<and> (\<exists>m\<in>set (lrulist l). lba m = k)"
    and "lru_Get l t = Some l'"
  shows "int (length (lrulist l')) + available l' = maxlen l' \<and>
         0 \<le> available l' \<and> maxlen l' = maxlen l \<and>
         (\<forall>k n. tlba l' k = Some n \<longrightarrow> lba n = k \<and> (\<exists>m\<in>set (lrulist l'). lba m = k))"
proof -
  let ?l = "l\<lparr>totalaccess := totalaccess l + 1\<rparr>"
  let ?d = "\<lparr>lba = Addr t, lastaccess = totalaccess l + 1, op = Op t\<rparr>"
  obtain b where res: "put ?l ?d = Some (b, l')"
    using assms(4) by (auto simp add: lru_Get_def Let_def)
  show ?thesis
  proof (cases "tlba ?l (lba ?d)")
    case None
    show ?thesis
      using put_miss_resident [of ?l ?d b l'] assms(1,2,3) None res by simp
  next
    case (Some dd)
    show ?thesis
      using put_hit_resident [of ?l ?d dd b l'] assms(1,2,3) Some res by simp
  qed
qed

lemma lru_run_resident:
  assumes "lru_run l tr = Some l'"
    and "int (length (lrulist l)) + available l = maxlen l"
    and "0 \<le> available l"
    and "\<forall>k n. tlba l k = Some n \<longrightarrow> lba n = k \<and> (\<exists>m\<in>set (lrulist l). lba m = k)"
  shows "int (length (lrulist l')) \<le> maxlen l"
  using assms
proof (induction tr arbitrary: l)
  case Nil
  then show ?case by simp
next
  case (Cons t tr)
  obtain l1 where g: "lru_Get l t = Some l1" and r: "lru_run l1 tr = Some l'"
    using Cons.prems(1) by (auto split: option.splits)
  have inv: "int (length (lrulist l1)) + available l1 = maxlen l1 \<and>
         0 \<le> available l1 \<and> maxlen l1 = maxlen l \<and>
         (\<forall>k n. tlba l1 k = Some n \<longrightarrow> lba n = k \<and> (\<exists>m\<in>set (lrulist l1). lba m = k))"
    by (rule lru_Get_resident [OF Cons.prems(2,3,4) g])
  show ?case
    using Cons.IH [OF r] inv by simp
qed

lemma lru_resident_bound:
  assumes "0 \<le> c" and "lru_run (NewLRU c) tr = Some l"
  shows "int (length (lrulist l)) \<le> c"
  using lru_run_resident [OF assms(2)] assms(1) by (simp add: NewLRU_def)

section \<open>Claim C1: the demotion step of LIRS-WSR\<close>

text \<open>
  Claim C1. Both demotion steps pop the oldest entry of stack S first and look its
  metadata up in S afterwards. When the keys of S are distinct the popped key is no
  longer there, both look-ups answer false, and the step takes its retry branch whatever
  the metadata of the popped entry was: the LIR set, the HIR set and list Q are left as
  they were, and the key is put back at the newest position of S with
  \<^verbatim>\<open>ColdFlag\<close> set and everything else zero (the second variant also counts a miss).
  No entry is ever demoted to list Q, in either variant.
\<close>

theorem wsr_demotion_retries:
  assumes "LIRSWSR.orderedStack s = (k, v) # st" and "om_Get st k = None"
  shows "wsr_condition1 s True =
           (None, s\<lparr>LIRSWSR.orderedStack := prune (LIRSWSR.LIR s) (st @ [(k, resetInfo)])\<rparr>) \<and>
         wsr_condition3 s True =
           (None, s\<lparr>LIRSWSR.orderedStack := prune (LIRSWSR.LIR s) (st @ [(k, resetInfo)])\<rparr>) \<and>
         wsr2_condition1 s True =
           (None, s\<lparr>LIRSWSR.miss := LIRSWSR.miss s + 1,
                     LIRSWSR.orderedStack := prune (LIRSWSR.LIR s) (st @ [(k, resetInfo)])\<rparr>) \<and>
         wsr2_condition3 s True =
           (None, s\<lparr>LIRSWSR.miss := LIRSWSR.miss s + 1,
                     LIRSWSR.orderedStack := prune (LIRSWSR.LIR s) (st @ [(k, resetInfo)])\<rparr>)"
  using assms
  by (simp add: wsr_condition1_def wsr_condition3_def wsr2_condition1_def wsr2_condition3_def
        wsr_isBlockDirty_def wsr_isBlockCold_def wsr2_isBlockColdDirty_def wsr2_isColdFlag_def
        wsr_retry_def wsr_stackPruning_def Let_def om_Set_absent om_MoveLast_newest)

text \<open>
  The engine of size 2 at 50 percent after a write of block 1 and a read of block 2,
  block 2 promoted as the next read of it does before it calls \<^verbatim>\<open>condition1\<close>. The
  oldest entry of S is block 1, cold and dirty; the step keeps it in the LIR set, now of
  two blocks, leaves list Q empty and puts it back on top of S with its dirty flag gone.
\<close>

theorem wsr_demotion_retries_witness:
  "let s1 = wsr_run (projr (NewLIRSWSR 2 50)) [\<lparr>Addr = 1, Op = ''W''\<rparr>, \<lparr>Addr = 2, Op = ''R''\<rparr>];
       s = wsr_removeFromList (wsr_makeLIR s1 2) 2
   in LIRSWSR.orderedStack s =
        [(1, \<lparr>Address = 1, Operation = ''W'', DirtyPage = True, ColdFlag = True, Access = 0\<rparr>),
         (2, \<lparr>Address = 2, Operation = ''R'', DirtyPage = False, ColdFlag = True, Access = 0\<rparr>)] \<and>
      LIRSWSR.LIR s = {1, 2} \<and>
      LIRSWSR.LIR (snd (wsr_condition1 s True)) = {1, 2} \<and>
      LIRSWSR.HIR (snd (wsr_condition1 s True)) = {} \<and>
      LIRSWSR.orderedList (snd (wsr_condition1 s True)) = [] \<and>
      LIRSWSR.orderedStack (snd (wsr_condition1 s True)) =
        [(2, \<lparr>Address = 2, Operation = ''R'', DirtyPage = False, ColdFlag = True, Access = 0\<rparr>),
         (1, \<lparr>Address = 0, Operation = [], DirtyPage = False, ColdFlag = True, Access = 0\<rparr>)] \<and>
      snd (wsr_condition3 s True) = snd (wsr_condition1 s True) \<and>
      LIRSWSR.LIR (snd (wsr2_condition1 s True)) = {1, 2} \<and>
      LIRSWSR.HIR (snd (wsr2_condition1 s True)) = {} \<and>
      LIRSWSR.orderedList (snd (wsr2_condition1 s True)) = [] \<and>
      snd (wsr2_condition3 s True) = snd (wsr2_condition1 s True)"
  using wsr_demotion_retries
          [of "wsr_removeFromList
                 (wsr_makeLIR
                    (wsr_run (projr (NewLIRSWSR 2 50))
                       [\<lparr>Addr = 1, Op = ''W''\<rparr>, \<lparr>Addr = 2, Op = ''R''\<rparr>]) 2) 2"
              1 "\<lparr>Address = 1, Operation = ''W'', DirtyPage = True, ColdFlag = True, Access = 0\<rparr>"
              "[(2, \<lparr>Address = 2, Operation = ''R'', DirtyPage = False, ColdFlag = True, Access = 0\<rparr>)]"]
  by (simp add: new_defs wsr_defs wsr_shared_defs om_defs Let_def insert_commute)

section \<open>Claim C2: the capacities\<close>

text \<open>
  Claim C2. The LIR set and list Q outgrow their capacities. LIRS of size 10 at 90
  percent has LIR capacity 1; after the addresses 1, 2, 3, 2, 4, 4 its LIR set holds 2
  and 4: the promotion of 4 pops the oldest entry of S, block 3, which is not a LIR
  block, so nothing leaves the LIR set. LIRS of size 1 at 0 percent has HIR capacity 0;
  \<^verbatim>\<open>addToList\<close> pops only when the length equals the capacity, so after the
  addresses 1, 2, 3 list Q holds two blocks. Both variants of LIRS-WSR of size 2 at 50
  percent have LIR capacity 1; after a write of 1 and two reads of 2 the LIR set holds
  1 and 2. The LRU part of the claim holds, see \<open>lru_resident_bound\<close>.
\<close>

theorem capacity_exceeded:
  "let a = lirs_run (projr (NewLIRS 10 90))
             [\<lparr>Addr = 1, Op = ''R''\<rparr>, \<lparr>Addr = 2, Op = ''R''\<rparr>, \<lparr>Addr = 3, Op = ''R''\<rparr>,
              \<lparr>Addr = 2, Op = ''R''\<rparr>, \<lparr>Addr = 4, Op = ''R''\<rparr>, \<lparr>Addr = 4, Op = ''R''\<rparr>];
       b = lirs_run (projr (NewLIRS 1 0))
             [\<lparr>Addr = 1, Op = ''R''\<rparr>, \<lparr>Addr = 2, Op = ''R''\<rparr>, \<lparr>Addr = 3, Op = ''R''\<rparr>];
       c = wsr_run (projr (NewLIRSWSR 2 50))
             [\<lparr>Addr = 1, Op = ''W''\<rparr>, \<lparr>Addr = 2, Op = ''R''\<rparr>, \<lparr>Addr = 2, Op = ''R''\<rparr>];
       d = wsr2_run (projr (NewLIRSWSR 2 50))
             [\<lparr>Addr = 1, Op = ''W''\<rparr>, \<lparr>Addr = 2, Op = ''R''\<rparr>, \<lparr>Addr = 2, Op = ''R''\<rparr>]
   in LIRS.LIRSize a = 1 \<and> LIRS.LIR a = {2, 4} \<and> LIRS.LIRSize a < int (card (LIRS.LIR a)) \<and>
      LIRS.HIRSize b = 0 \<and> LIRS.orderedList b = [(2, 1), (3, 1)] \<and>
      LIRS.HIRSize b < om_Len (LIRS.orderedList b) \<and>
      LIRSWSR.LIRSize c = 1 \<and> LIRSWSR.LIR c = {1, 2} \<and>
      LIRSWSR.LIRSize c < int (card (LIRSWSR.LIR c)) \<and>
      LIRSWSR.LIRSize d = 1 \<and> LIRSWSR.LIR d = {1, 2} \<and>
      LIRSWSR.LIRSize d < int (card (LIRSWSR.LIR d))"
  by (simp add: new_defs lirs_defs wsr_defs wsr2_defs wsr_shared_defs om_defs Let_def
        insert_commute)

section \<open>Claim C3: the oldest entry of stack S\<close>

text \<open>
  Claim C3. Every handler puts the accessed block on top of S after the pruning, not
  before it, and the cold start never prunes. LIRS of size 10 at 90 percent after the
  addresses 1, 2, 3, 2: the oldest entry of S is block 3 and the LIR set is \<open>{2}\<close>.
  LIRS of size 2 at 100 percent after its first access: the oldest entry of S is block
  1 and the LIR set is empty. Both variants of LIRS-WSR of size 10 at 90 percent after
  the addresses 1, 2, 3, 2: the oldest entry of S is block 3 and the LIR set is
  \<open>{1, 2}\<close>.
\<close>

theorem stack_bottom_not_LIR:
  "let a = lirs_run (projr (NewLIRS 10 90))
             [\<lparr>Addr = 1, Op = ''R''\<rparr>, \<lparr>Addr = 2, Op = ''R''\<rparr>, \<lparr>Addr = 3, Op = ''R''\<rparr>, \<lparr>Addr = 2, Op = ''R''\<rparr>];
       b = lirs_run (projr (NewLIRS 2 100)) [\<lparr>Addr = 1, Op = ''R''\<rparr>];
       c = wsr_run (projr (NewLIRSWSR 10 90))
             [\<lparr>Addr = 1, Op = ''R''\<rparr>, \<lparr>Addr = 2, Op = ''R''\<rparr>, \<lparr>Addr = 3, Op = ''R''\<rparr>, \<lparr>Addr = 2, Op = ''R''\<rparr>];
       d = wsr2_run (projr (NewLIRSWSR 10 90))
             [\<lparr>Addr = 1, Op = ''R''\<rparr>, \<lparr>Addr = 2, Op = ''R''\<rparr>, \<lparr>Addr = 3, Op = ''R''\<rparr>, \<lparr>Addr = 2, Op = ''R''\<rparr>]
   in map fst (LIRS.orderedStack a) = [3, 2] \<and> LIRS.LIR a = {2} \<and>
      map_option fst (om_GetFirst (LIRS.orderedStack a)) = Some 3 \<and> 3 \<notin> LIRS.LIR a \<and>
      map fst (LIRS.orderedStack b) = [1] \<and> LIRS.LIR b = {} \<and>
      map_option fst (om_GetFirst (LIRS.orderedStack b)) = Some 1 \<and> 1 \<notin> LIRS.LIR b \<and>
      map fst (LIRSWSR.orderedStack c) = [3, 1, 2] \<and> LIRSWSR.LIR c = {1, 2} \<and>
      map_option fst (om_GetFirst (LIRSWSR.orderedStack c)) = Some 3 \<and> 3 \<notin> LIRSWSR.LIR c \<and>
      map fst (LIRSWSR.orderedStack d) = [3, 1, 2] \<and> LIRSWSR.LIR d = {1, 2} \<and>
      map_option fst (om_GetFirst (LIRSWSR.orderedStack d)) = Some 3 \<and> 3 \<notin> LIRSWSR.LIR d"
  by (simp add: new_defs lirs_defs wsr_defs wsr2_defs wsr_shared_defs om_defs Let_def
        insert_commute)

section \<open>Claim C4: hits and misses against the number of accesses\<close>



section \<open>Claim C5: the error of an empty stack\<close>


section \<open>Claim C6: the write counter of the LIRS engine\<close>



section \<open>Claim C7: the dirty flag in LIRS-WSR\<close>

text \<open>
  Claim C7. In the steady state, an access to a block of the LIR set ends, in both
  variants, with \<^verbatim>\<open>orderedStack.Set(block, &BlockInfo{ColdFlag: true, ...})\<close>: the
  whole metadata of the block is replaced and its \<^verbatim>\<open>DirtyPage\<close> is false
  afterwards, whatever it was and whatever the operation of the access is.
\<close>

theorem wsr_LIR_hit_clears_dirty:
  assumes "\<not> int (card (LIRSWSR.LIR s)) < LIRSWSR.LIRSize s"
    and "Addr t \<in> LIRSWSR.LIR s"
    and "LIRSWSR.orderedStack s \<noteq> []"
  shows "om_Get (LIRSWSR.orderedStack (snd (wsr_Get s t))) (Addr t) =
           Some \<lparr>Address = 0, Operation = [], DirtyPage = False, ColdFlag = True, Access = 0\<rparr> \<and>
         om_Get (LIRSWSR.orderedStack (snd (wsr2_Get s t))) (Addr t) =
           Some \<lparr>Address = 0, Operation = [], DirtyPage = False, ColdFlag = True, Access = 1\<rparr>"
proof -
  obtain e st where stack: "LIRSWSR.orderedStack s = e # st"
    using assms(3) by (cases "LIRSWSR.orderedStack s") simp_all
  show ?thesis
    using assms(1,2) stack
    by (simp add: wsr_Get_def wsr2_Get_def wsr_handleLIRBlock_def wsr2_handleLIRBlock_def
          wsr2_incrementAccess_def Let_def om_Get_om_Set_same resetInfo_def split: prod.split)
qed

text \<open>
  The engine of size 2 at 0 percent after a read of block 1 and a write of block 2, the
  same state in both variants: block 2 is in the LIR set and dirty. A read of block 2
  leaves it in the LIR set and clean.
\<close>

theorem wsr_LIR_hit_clears_dirty_witness:
  "let s = wsr_run (projr (NewLIRSWSR 2 0)) [\<lparr>Addr = 1, Op = ''R''\<rparr>, \<lparr>Addr = 2, Op = ''W''\<rparr>];
       t = \<lparr>Addr = 2, Op = ''R''\<rparr>
   in wsr2_run (projr (NewLIRSWSR 2 0)) [\<lparr>Addr = 1, Op = ''R''\<rparr>, \<lparr>Addr = 2, Op = ''W''\<rparr>] = s \<and>
      \<not> int (card (LIRSWSR.LIR s)) < LIRSWSR.LIRSize s \<and>
      Addr t \<in> LIRSWSR.LIR s \<and>
      LIRSWSR.orderedStack s \<noteq> [] \<and>
      om_Get (LIRSWSR.orderedStack s) 2 =
        Some \<lparr>Address = 2, Operation = ''W'', DirtyPage = True, ColdFlag = True, Access = 0\<rparr> \<and>
      om_Get (LIRSWSR.orderedStack (snd (wsr_Get s t))) 2 =
        Some \<lparr>Address = 0, Operation = [], DirtyPage = False, ColdFlag = True, Access = 0\<rparr> \<and>
      om_Get (LIRSWSR.orderedStack (snd (wsr2_Get s t))) 2 =
        Some \<lparr>Address = 0, Operation = [], DirtyPage = False, ColdFlag = True, Access = 1\<rparr> \<and>
      2 \<in> LIRSWSR.LIR (snd (wsr_Get s t)) \<and> 2 \<in> LIRSWSR.LIR (snd (wsr2_Get s t))"
  using wsr_LIR_hit_clears_dirty
          [of "wsr_run (projr (NewLIRSWSR 2 0)) [\<lparr>Addr = 1, Op = ''R''\<rparr>, \<lparr>Addr = 2, Op = ''W''\<rparr>]"
              "\<lparr>Addr = 2, Op = ''R''\<rparr>"]
  by (simp add: new_defs wsr_defs wsr2_defs wsr_shared_defs om_defs Let_def insert_commute)

section \<open>Claim C8: the two capacities and the cache size\<close>

text \<open>
  The constructors truncate both quotients, so one unit of the cache size is lost
  whenever 100 does not divide \<open>hirPercent * cacheSize\<close>: with cache size 1 and 50
  percent both capacities are 0.
\<close>

theorem capacities_sum_counterexample:
  "NewLIRS 1 50 =
     Inr \<lparr>LIRS.cacheSize = 1, LIRSize = 0, HIRSize = 0, hit = 0, miss = 0, writeCount = 0,
          orderedStack = [], orderedList = [], LIR = {}, HIR = {}\<rparr> \<and>
   NewLIRSWSR 1 50 =
     Inr \<lparr>LIRSWSR.cacheSize = 1, LIRSize = 0, HIRSize = 0, hit = 0, miss = 0, writeCount = 0,
          orderedStack = [], orderedList = [], LIR = {}, HIR = {}\<rparr> \<and>
   LIRS.LIRSize (projr (NewLIRS 1 50)) + LIRS.HIRSize (projr (NewLIRS 1 50))
     \<noteq> LIRS.cacheSize (projr (NewLIRS 1 50)) \<and>
   LIRSWSR.LIRSize (projr (NewLIRSWSR 1 50)) + LIRSWSR.HIRSize (projr (NewLIRSWSR 1 50))
     \<noteq> LIRSWSR.cacheSize (projr (NewLIRSWSR 1 50))"
  by (simp add: new_defs)

text \<open>
  Claim C8, as the code has it. For a positive cache size whose hundredfold fits the 64
  bit integer and a percentage in \<open>[0, 100]\<close>, both constructors succeed; the sum of
  \<^verbatim>\<open>LIRSize\<close> and \<^verbatim>\<open>HIRSize\<close> is the cache size or one less, and it is the cache
  size exactly when 100 divides \<open>hirPercent * cacheSize\<close>.
\<close>

theorem capacities_sum:
  assumes "0 < c" and "c \<le> 92233720368547758" and "0 \<le> h" and "h \<le> 100"
  shows "(\<exists>s. NewLIRS c h = Inr s \<and>
            LIRS.LIRSize s + LIRS.HIRSize s \<le> c \<and>
            c - 1 \<le> LIRS.LIRSize s + LIRS.HIRSize s \<and>
            (LIRS.LIRSize s + LIRS.HIRSize s = c) = (100 dvd h * c)) \<and>
         (\<exists>s. NewLIRSWSR c h = Inr s \<and>
            LIRSWSR.LIRSize s + LIRSWSR.HIRSize s \<le> c \<and>
            c - 1 \<le> LIRSWSR.LIRSize s + LIRSWSR.HIRSize s \<and>
            (LIRSWSR.LIRSize s + LIRSWSR.HIRSize s = c) = (100 dvd h * c))"
  using assms capacity_products [OF assms] split_sum [of c "h * c"]
  by (simp add: NewLIRS_def NewLIRSWSR_def go_div_nonneg)

text \<open>Cache size 3 at 50 percent: the capacities are 1 and 1, and 100 does not divide 150.\<close>

theorem capacities_sum_witness:
  "(\<exists>s. NewLIRS 3 50 = Inr s \<and>
            LIRS.LIRSize s + LIRS.HIRSize s \<le> 3 \<and>
            3 - 1 \<le> LIRS.LIRSize s + LIRS.HIRSize s \<and>
            (LIRS.LIRSize s + LIRS.HIRSize s = 3) = (100 dvd (50::int) * 3)) \<and>
         (\<exists>s. NewLIRSWSR 3 50 = Inr s \<and>
            LIRSWSR.LIRSize s + LIRSWSR.HIRSize s \<le> 3 \<and>
            3 - 1 \<le> LIRSWSR.LIRSize s + LIRSWSR.HIRSize s \<and>
            (LIRSWSR.LIRSize s + LIRSWSR.HIRSize s = 3) = (100 dvd (50::int) * 3))"
  using capacities_sum [of 3 50] by simp

section \<open>Claim C9: the eviction order of LRU\<close>

text \<open>
  Claim C9. An LRU cache of size 2, whatever the operations of the records: after the
  addresses 1, 2 the list holds 2 and 1; the arrival of 3 evicts 1, one page fault,
  leaving 3 and 2 in the list and in the index. After 1, 2, 1 the arrival of 3 evicts 2
  instead, leaving 3 and 1. No access panics.
\<close>

theorem lru_eviction_order:
  "lru_run (NewLRU 2) [\<lparr>Addr = 1, Op = o1\<rparr>, \<lparr>Addr = 2, Op = o2\<rparr>] \<noteq> None \<and>
   map lba (lrulist (the (lru_run (NewLRU 2) [\<lparr>Addr = 1, Op = o1\<rparr>, \<lparr>Addr = 2, Op = o2\<rparr>])))
     = [2, 1] \<and>
   lru_run (NewLRU 2) [\<lparr>Addr = 1, Op = o1\<rparr>, \<lparr>Addr = 2, Op = o2\<rparr>, \<lparr>Addr = 3, Op = o3\<rparr>]
     \<noteq> None \<and>
   map lba (lrulist (the (lru_run (NewLRU 2)
     [\<lparr>Addr = 1, Op = o1\<rparr>, \<lparr>Addr = 2, Op = o2\<rparr>, \<lparr>Addr = 3, Op = o3\<rparr>]))) = [3, 2] \<and>
   dom (tlba (the (lru_run (NewLRU 2)
     [\<lparr>Addr = 1, Op = o1\<rparr>, \<lparr>Addr = 2, Op = o2\<rparr>, \<lparr>Addr = 3, Op = o3\<rparr>]))) = {2, 3} \<and>
   pagefault (the (lru_run (NewLRU 2)
     [\<lparr>Addr = 1, Op = o1\<rparr>, \<lparr>Addr = 2, Op = o2\<rparr>, \<lparr>Addr = 3, Op = o3\<rparr>])) = 1 \<and>
   lru_run (NewLRU 2)
     [\<lparr>Addr = 1, Op = o1\<rparr>, \<lparr>Addr = 2, Op = o2\<rparr>, \<lparr>Addr = 1, Op = o3\<rparr>, \<lparr>Addr = 3, Op = o4\<rparr>]
     \<noteq> None \<and>
   map lba (lrulist (the (lru_run (NewLRU 2)
     [\<lparr>Addr = 1, Op = o1\<rparr>, \<lparr>Addr = 2, Op = o2\<rparr>, \<lparr>Addr = 1, Op = o3\<rparr>,
      \<lparr>Addr = 3, Op = o4\<rparr>]))) = [3, 1] \<and>
   dom (tlba (the (lru_run (NewLRU 2)
     [\<lparr>Addr = 1, Op = o1\<rparr>, \<lparr>Addr = 2, Op = o2\<rparr>, \<lparr>Addr = 1, Op = o3\<rparr>,
      \<lparr>Addr = 3, Op = o4\<rparr>]))) = {1, 3} \<and>
   pagefault (the (lru_run (NewLRU 2)
     [\<lparr>Addr = 1, Op = o1\<rparr>, \<lparr>Addr = 2, Op = o2\<rparr>, \<lparr>Addr = 1, Op = o3\<rparr>,
      \<lparr>Addr = 3, Op = o4\<rparr>])) = 1"
  by (auto simp add: lru_defs Let_def)

section \<open>Claim C10: a write to an unknown block in the first LIRS-WSR variant\<close>



end
